theory Spec2Isabelle
  imports Main "HOL-Library.Multiset" "HOL-Library.Word"
begin

section \<open>The table comparison of \<open>hana_snowflake_comparison.py\<close>\<close>

text \<open>
  The repository holds two copies of one comparison engine,
  \<^verbatim>\<open>DatabaseComparator.compare_tables\<close> in \<^verbatim>\<open>hana_snowflake_comparison.py\<close> and in
  \<^verbatim>\<open>data_ops/scripts/hana_snowflake_comparison.py\<close>. Each fetches two pandas data frames,
  indexes them by the key columns, lists the rows whose key is on one side only, and
  compares the rows of the keys found on both sides, column by column, in chunks.

  The embedding follows the function statement by statement. What the function takes
  from its surroundings is written out or taken as a parameter:
  \<^item> the Python values of the cells are a datatype;
  \<^item> a data frame is its column names and its rows; the pandas calls the function makes
    (\<^verbatim>\<open>set_index\<close>, \<^verbatim>\<open>Index.difference\<close>, \<^verbatim>\<open>Index.intersection\<close>, \<^verbatim>\<open>.loc\<close>,
    \<^verbatim>\<open>reset_index().to_dict('records')\<close>) are functions on that representation;
  \<^item> every exception is a value of \<open>error\<close>, and the function returns \<open>error + result\<close>;
  \<^item> the clock, the iteration order of a Python \<^verbatim>\<open>set\<close>, the sorting pandas applies to an
    index difference, the objects pandas hands out for the cells of a row, and double
    precision arithmetic are fields of the record \<open>env\<close>.
\<close>

subsection \<open>Values and errors\<close>

text \<open>
  The Python objects that the function handles as values of cells:
  \<^item> \<^verbatim>\<open>None\<close>, a \<^verbatim>\<open>bool\<close>, an \<^verbatim>\<open>int\<close> (unbounded), a \<^verbatim>\<open>str\<close>;
  \<^item> a \<^verbatim>\<open>float\<close> (the 64 bits of the double); \<^verbatim>\<open>numpy.float64\<close> is a subclass of \<^verbatim>\<open>float\<close>
    and is not told apart from it; a missing number is the float \<^verbatim>\<open>nan\<close>;
  \<^item> a pandas \<^verbatim>\<open>Timestamp\<close> (nanoseconds since the epoch) and the missing timestamp
    \<^verbatim>\<open>NaT\<close>;
  \<^item> the scalars \<^verbatim>\<open>numpy.int64\<close> and \<^verbatim>\<open>numpy.bool_\<close>, which pandas hands out for the cells
    of a column of integers or of booleans, and which are no instances of \<^verbatim>\<open>int\<close>.
\<close>

datatype pyval =
    PNone
  | PBool bool
  | PInt int
  | PFloat "64 word"
  | PStr string
  | PTimestamp int
  | PNaT
  | PNpInt int
  | PNpBool bool

text \<open>
  The exceptions, by their Python class. Neither copy defines an exception class of its
  own or catches what pandas raises.
  \<^item> \<open>FetchError\<close>: whatever connecting, or the cursor, raises.
  \<^item> \<open>AttributeError\<close>: \<^verbatim>\<open>self.connection.cursor()\<close> on \<^verbatim>\<open>None\<close>.
  \<^item> \<open>KeyError\<close>: \<^verbatim>\<open>set_index\<close> with a key that is not a column of the frame; \<^verbatim>\<open>.loc[key]\<close>
    with a key that no row has.
  \<^item> \<open>ValueError\<close>: \<^verbatim>\<open>set_index([])\<close> on a frame that has rows (the index built from no
    column has length 0); \<^verbatim>\<open>reset_index\<close> when the column to insert already exists; the
    truth value of a Series; \<^verbatim>\<open>range()\<close> with step zero.
  \<^item> \<open>OverflowError\<close>: \<^verbatim>\<open>float(n)\<close> for an \<^verbatim>\<open>int\<close> too large to convert.
\<close>

datatype error = FetchError | AttributeError | KeyError | ValueError | OverflowError

type_synonym pykey = "pyval list"
type_synonym pydict = "(string \<times> pyval) list"

subsection \<open>Data frames\<close>

text \<open>
  A frame is the \<^verbatim>\<open>DataFrame\<close> that \<^verbatim>\<open>execute_query\<close> returns, after
  \<^verbatim>\<open>pd.DataFrame(data, columns=columns)\<close> has built it: its column names and its rows, a
  cell being the value that \<^verbatim>\<open>to_dict\<close> gives for it (an \<^verbatim>\<open>int\<close> for a cell of an integer
  column, \<^verbatim>\<open>nan\<close> for a missing number, \<^verbatim>\<open>NaT\<close> for a missing timestamp, \<^verbatim>\<open>None\<close> only in a
  column of objects). What pandas made of the fetched tuples when it built the columns
  lies before this point.
\<close>

record frame =
  columns :: "string list"
  data :: "pyval list list"

definition wf_frame :: "frame \<Rightarrow> bool" where
  "wf_frame df \<longleftrightarrow> distinct (columns df) \<and> (\<forall>r \<in> set (data df). length r = length (columns df))"

definition cell :: "string list \<Rightarrow> pyval list \<Rightarrow> string \<Rightarrow> pyval" where
  "cell cs r c = (case map_of (zip cs r) c of Some v \<Rightarrow> v | None \<Rightarrow> PNone)"

text \<open>
  A frame after \<^verbatim>\<open>set_index(key_columns)\<close>: the names of the index levels, the columns
  that are left, and for every row of the frame, in order, its key and its other cells.
  A key that repeats keeps all its rows.
\<close>

record indexed =
  names :: "string list"
  cols :: "string list"
  entries :: "(pykey \<times> pyval list) list"

subsection \<open>The surroundings of a run\<close>

text \<open>
  \<^item> \<open>now\<close>: \<^verbatim>\<open>datetime.now().isoformat()\<close>.
  \<^item> \<open>set_iter\<close>: the order in which \<^verbatim>\<open>list(s)\<close> lists a set of strings; it is given the
    elements once each and may return them in any order.
  \<^item> \<open>try_sort\<close>: \<^verbatim>\<open>Index.difference\<close> sorts its result when the keys can be compared and
    leaves it as it is otherwise.
  \<^item> \<open>float_test a b\<close>: the outcome of \<^verbatim>\<open>abs(float(a) - float(b)) > 1e-10\<close> in double
    precision arithmetic, \<open>None\<close> when \<^verbatim>\<open>float()\<close> raises \<^verbatim>\<open>OverflowError\<close>.
  \<^item> \<open>float_ne a b\<close>: the outcome of \<^verbatim>\<open>a != b\<close> for two numbers of which one is a float.
  \<^item> \<open>row_value f c v\<close>: the object that \<^verbatim>\<open>row[c]\<close> returns when \<^verbatim>\<open>row\<close> is a row of the
    indexed frame \<open>f\<close> and the frame holds \<open>v\<close> in column \<open>c\<close> of that row. A row is a
    Series over the columns of the frame: pandas gives it the common type of the
    columns, so that an integer next to a float column comes back as a float, and it
    hands out numpy scalars for the cells of numeric columns.
\<close>

record env =
  now :: string
  set_iter :: "string list \<Rightarrow> string list"
  try_sort :: "pykey list \<Rightarrow> pykey list"
  float_test :: "pyval \<Rightarrow> pyval \<Rightarrow> bool option"
  float_ne :: "pyval \<Rightarrow> pyval \<Rightarrow> bool"
  row_value :: "indexed \<Rightarrow> string \<Rightarrow> pyval \<Rightarrow> pyval"


subsection \<open>The calls to pandas\<close>

text \<open>
  \<^verbatim>\<open>df.set_index(keys)\<close>. pandas first looks for keys that are no columns, then builds the
  index from the key columns; built from no column it has length 0 and fits only a
  frame without rows.
\<close>

definition set_index :: "frame \<Rightarrow> string list \<Rightarrow> error + indexed" where
  "set_index df keys =
     (if \<exists>k \<in> set keys. k \<notin> set (columns df) then Inl KeyError
      else if keys = [] \<and> data df \<noteq> [] then Inl ValueError
      else Inr \<lparr>names = keys,
                cols = filter (\<lambda>c. c \<notin> set keys) (columns df),
                entries = map (\<lambda>r. (map (cell (columns df) r) keys,
                                      map (cell (columns df) r)
                                          (filter (\<lambda>c. c \<notin> set keys) (columns df))))
                              (data df)\<rparr>)"

definition index_of :: "indexed \<Rightarrow> pykey list" where
  "index_of f = map fst (entries f)"


text \<open>The key of a row of a frame, and the frames whose keys are plain.\<close>

definition key_of :: "frame \<Rightarrow> string list \<Rightarrow> pyval list \<Rightarrow> pykey" where
  "key_of df keys r = map (cell (columns df) r) keys"



text \<open>The values of a list, once each, in the order of their first occurrence.\<close>

definition unique :: "'a list \<Rightarrow> 'a list" where
  "unique xs = rev (remdups (rev xs))"

definition index_difference :: "env \<Rightarrow> pykey list \<Rightarrow> pykey list \<Rightarrow> pykey list" where
  "index_difference e a b = try_sort e (unique (filter (\<lambda>k. k \<notin> set b) a))"

definition index_intersection :: "pykey list \<Rightarrow> pykey list \<Rightarrow> pykey list" where
  "index_intersection a b = unique (filter (\<lambda>k. k \<in> set b) a)"

text \<open>\<^verbatim>\<open>df.loc[keys]\<close> with a list of keys: for each key in turn, all rows that have it.\<close>

definition loc_keys :: "indexed \<Rightarrow> pykey list \<Rightarrow> (pykey \<times> pyval list) list" where
  "loc_keys f ks = concat (map (\<lambda>k. filter (\<lambda>en. fst en = k) (entries f)) ks)"

text \<open>
  \<^verbatim>\<open>reset_index().to_dict('records')\<close>: the index levels come back as the first columns,
  which fails when two levels have one name; then every row is a dictionary.
\<close>

definition to_record :: "indexed \<Rightarrow> pykey \<times> pyval list \<Rightarrow> pydict" where
  "to_record f en = zip (names f @ cols f) (fst en @ snd en)"

definition reset_index_records :: "indexed \<Rightarrow> (pykey \<times> pyval list) list \<Rightarrow> error + pydict list" where
  "reset_index_records f ens =
     (if \<not> distinct (names f) then Inl ValueError else Inr (map (to_record f) ens))"

text \<open>
  \<^verbatim>\<open>df.loc[key]\<close> with one key: the row of the key; all its rows (a frame, not a Series)
  when the key repeats; \<^verbatim>\<open>KeyError\<close> when no row has it.
\<close>

definition loc :: "indexed \<Rightarrow> pykey \<Rightarrow> error + pyval list list" where
  "loc f k =
     (case filter (\<lambda>en. fst en = k) (entries f) of
        [] \<Rightarrow> Inl KeyError
      | ens \<Rightarrow> Inr (map snd ens))"

text \<open>
  \<^verbatim>\<open>row[col] if col in row else None\<close>: a scalar, as pandas hands it out, when \<^verbatim>\<open>row\<close> is
  one row, a Series of the column when \<^verbatim>\<open>row\<close> is the frame of a repeated key.
\<close>

datatype cellval = Scalar pyval | Series "pyval list"

definition get_val :: "env \<Rightarrow> indexed \<Rightarrow> pyval list list \<Rightarrow> string \<Rightarrow> cellval" where
  "get_val e f rs c =
     (if c \<in> set (cols f)
      then (case rs of [r] \<Rightarrow> Scalar (row_value e f c (cell (cols f) r c))
                     | _ \<Rightarrow> Series (map (\<lambda>r. cell (cols f) r c) rs))
      else Scalar PNone)"

subsection \<open>Comparing two cells\<close>

text \<open>
  \<^verbatim>\<open>isinstance(v, (int, float))\<close>. A Python \<^verbatim>\<open>bool\<close> is an \<^verbatim>\<open>int\<close>; \<^verbatim>\<open>numpy.int64\<close> and
  \<^verbatim>\<open>numpy.bool_\<close> are neither an \<^verbatim>\<open>int\<close> nor a \<^verbatim>\<open>float\<close>.
\<close>

fun is_numeric :: "pyval \<Rightarrow> bool" where
  "is_numeric (PBool _) = True"
| "is_numeric (PInt _) = True"
| "is_numeric (PFloat _) = True"
| "is_numeric _ = False"

text \<open>
  \<^verbatim>\<open>abs(float(a) - float(b)) > 1e-10\<close>. A \<^verbatim>\<open>bool\<close> and an \<^verbatim>\<open>int\<close> of magnitude at most
  \<open>2^53\<close> convert to the double of the same value, and the difference of two such doubles
  is zero when they are equal and at least one in magnitude otherwise; every other case
  is left to \<open>float_test\<close>.
\<close>

fun exact_int :: "pyval \<Rightarrow> int option" where
  "exact_int (PBool b) = Some (if b then 1 else 0)"
| "exact_int (PInt n) = (if \<bar>n\<bar> \<le> 2 ^ 53 then Some n else None)"
| "exact_int _ = None"

definition exceeds_tolerance :: "env \<Rightarrow> pyval \<Rightarrow> pyval \<Rightarrow> error + bool" where
  "exceeds_tolerance e a b =
     (case (exact_int a, exact_int b) of
        (Some m, Some n) \<Rightarrow> Inr (m \<noteq> n)
      | _ \<Rightarrow> (case float_test e a b of None \<Rightarrow> Inl OverflowError | Some t \<Rightarrow> Inr t))"

text \<open>
  \<^verbatim>\<open>a != b\<close> on two scalars. \<^verbatim>\<open>NaT\<close> is unequal to every object, itself included. Numbers
  are compared by their values, whatever their types: two integers or booleans
  exactly, a pair with a float by \<open>float_ne\<close>. All other objects are equal when they are
  the same value of the same type.
\<close>

fun int_value :: "pyval \<Rightarrow> int option" where
  "int_value (PBool b) = Some (if b then 1 else 0)"
| "int_value (PInt n) = Some n"
| "int_value (PNpInt n) = Some n"
| "int_value (PNpBool b) = Some (if b then 1 else 0)"
| "int_value _ = None"

fun is_float :: "pyval \<Rightarrow> bool" where
  "is_float (PFloat _) = True"
| "is_float _ = False"

definition py_ne :: "env \<Rightarrow> pyval \<Rightarrow> pyval \<Rightarrow> bool" where
  "py_ne e a b =
     (if a = PNaT \<or> b = PNaT then True
      else case (int_value a, int_value b) of
             (Some m, Some n) \<Rightarrow> m \<noteq> n
           | _ \<Rightarrow> if (is_float a \<and> (is_float b \<or> int_value b \<noteq> None))
                     \<or> (is_float b \<and> int_value a \<noteq> None)
                  then float_ne e a b
                  else a \<noteq> b)"

text \<open>
  The \<^verbatim>\<open>if\<close>/\<^verbatim>\<open>elif\<close> of the column loop: \<open>Inr True\<close> when a difference is to be recorded.
  With a Series on either side neither \<^verbatim>\<open>isinstance\<close> test holds, \<^verbatim>\<open>!=\<close> compares
  element by element, and the \<^verbatim>\<open>elif\<close> asks for the truth value of the Series it gets.
\<close>

definition values_differ :: "env \<Rightarrow> cellval \<Rightarrow> cellval \<Rightarrow> error + bool" where
  "values_differ e hv sv =
     (case (hv, sv) of
        (Scalar a, Scalar b) \<Rightarrow>
          (if is_numeric a \<and> is_numeric b then exceeds_tolerance e a b
           else Inr (py_ne e a b))
      | _ \<Rightarrow> Inl ValueError)"

text \<open>\<^verbatim>\<open>d[k] = v\<close> on a dictionary kept in insertion order.\<close>

fun dict_set :: "'k \<Rightarrow> 'v \<Rightarrow> ('k \<times> 'v) list \<Rightarrow> ('k \<times> 'v) list" where
  "dict_set k v [] = [(k, v)]"
| "dict_set k v (p # d) = (if fst p = k then (k, v) # d else p # dict_set k v d)"

text \<open>\<^verbatim>\<open>dict(pairs)\<close>.\<close>

definition py_dict :: "('k \<times> 'v) list \<Rightarrow> ('k \<times> 'v) list" where
  "py_dict ps = foldl (\<lambda>d p. dict_set (fst p) (snd p) d) [] ps"

text \<open>
  \<^verbatim>\<open>range(0, stop, step)\<close> as the list of its values: an error for step zero, empty for
  a negative step (the start is not above the stop).
\<close>

function range_up :: "nat \<Rightarrow> nat \<Rightarrow> nat \<Rightarrow> nat list" where
  "range_up i stop step = (if step = 0 \<or> stop \<le> i then [] else i # range_up (i + step) stop step)"
  by pat_completeness auto
termination
  by (relation "measure (\<lambda>(i, stop, step). stop - i)") auto

definition py_range :: "nat \<Rightarrow> int \<Rightarrow> error + nat list" where
  "py_range stop step =
     (if step = 0 then Inl ValueError
      else if step < 0 then Inr []
      else Inr (range_up 0 stop (nat step)))"

subsection \<open>The results of the first copy\<close>

text \<open>
  The dictionaries the function builds, with the keys of \<^verbatim>\<open>hana_snowflake_comparison.py\<close>.
  A recorded difference holds \<^verbatim>\<open>hana_val\<close> and \<^verbatim>\<open>snowflake_val\<close> as they were read.
\<close>

record difference =
  hana_value :: cellval
  snowflake_value :: cellval

record value_difference =
  key :: pydict
  differences :: "(string \<times> difference) list"

record result =
  timestamp :: string
  hana_row_count :: nat
  snowflake_row_count :: nat
  columns_compared :: "string list"
  only_in_hana :: "pydict list"
  only_in_snowflake :: "pydict list"
  value_differences :: "value_difference list"

subsection \<open>The loops of \<^verbatim>\<open>compare_tables\<close>\<close>

text \<open>\<^verbatim>\<open>for col in compare_columns\<close>, on the rows of one key, filling \<^verbatim>\<open>differences\<close>.\<close>

fun column_loop ::
  "env \<Rightarrow> indexed \<Rightarrow> pyval list list \<Rightarrow> indexed \<Rightarrow> pyval list list \<Rightarrow> string list \<Rightarrow>
   (string \<times> difference) list \<Rightarrow> error + (string \<times> difference) list" where
  "column_loop e hana_df hana_row snowflake_df snowflake_row [] d = Inr d"
| "column_loop e hana_df hana_row snowflake_df snowflake_row (col # cs) d =
     (let hana_val = get_val e hana_df hana_row col;
          snowflake_val = get_val e snowflake_df snowflake_row col
      in case values_differ e hana_val snowflake_val of
           Inl err \<Rightarrow> Inl err
         | Inr t \<Rightarrow>
             column_loop e hana_df hana_row snowflake_df snowflake_row cs
               (if t then dict_set col \<lparr>hana_value = hana_val, snowflake_value = snowflake_val\<rparr> d
                else d))"

text \<open>
  The body of \<^verbatim>\<open>for key in chunk_keys\<close>: the record appended to
  \<^verbatim>\<open>result['value_differences']\<close>, if any.
\<close>

definition key_entry ::
  "env \<Rightarrow> indexed \<Rightarrow> indexed \<Rightarrow> string list \<Rightarrow> string list \<Rightarrow> pykey \<Rightarrow>
   error + value_difference option" where
  "key_entry e hana_df snowflake_df key_columns compare_columns k =
     (case loc hana_df k of
        Inl err \<Rightarrow> Inl err
      | Inr hana_row \<Rightarrow>
     (case loc snowflake_df k of
        Inl err \<Rightarrow> Inl err
      | Inr snowflake_row \<Rightarrow>
     (case column_loop e hana_df hana_row snowflake_df snowflake_row compare_columns [] of
        Inl err \<Rightarrow> Inl err
      | Inr d \<Rightarrow>
          Inr (if d = [] then None
               else Some \<lparr>key = py_dict (zip key_columns k), differences = d\<rparr>))))"

fun key_loop ::
  "env \<Rightarrow> indexed \<Rightarrow> indexed \<Rightarrow> string list \<Rightarrow> string list \<Rightarrow> pykey list \<Rightarrow>
   value_difference list \<Rightarrow> error + value_difference list" where
  "key_loop e hana_df snowflake_df key_columns compare_columns [] acc = Inr acc"
| "key_loop e hana_df snowflake_df key_columns compare_columns (k # ks) acc =
     (case key_entry e hana_df snowflake_df key_columns compare_columns k of
        Inl err \<Rightarrow> Inl err
      | Inr None \<Rightarrow> key_loop e hana_df snowflake_df key_columns compare_columns ks acc
      | Inr (Some v) \<Rightarrow>
          key_loop e hana_df snowflake_df key_columns compare_columns ks (acc @ [v]))"

text \<open>
  \<^verbatim>\<open>for i in range(0, len(common_keys), chunk_size)\<close> over the values of the range, with
  \<^verbatim>\<open>chunk_keys = common_keys[i:i + chunk_size]\<close>.
\<close>

fun chunk_loop ::
  "env \<Rightarrow> indexed \<Rightarrow> indexed \<Rightarrow> string list \<Rightarrow> string list \<Rightarrow> pykey list \<Rightarrow> nat \<Rightarrow>
   nat list \<Rightarrow> value_difference list \<Rightarrow> error + value_difference list" where
  "chunk_loop e hana_df snowflake_df key_columns compare_columns common_keys chunk_size [] acc =
     Inr acc"
| "chunk_loop e hana_df snowflake_df key_columns compare_columns common_keys chunk_size (i # is) acc =
     (case key_loop e hana_df snowflake_df key_columns compare_columns
             (take chunk_size (drop i common_keys)) acc of
        Inl err \<Rightarrow> Inl err
      | Inr acc' \<Rightarrow>
          chunk_loop e hana_df snowflake_df key_columns compare_columns common_keys chunk_size
            is acc')"

subsection \<open>\<^verbatim>\<open>compare_tables\<close>, first copy\<close>

text \<open>\<^verbatim>\<open>compare_columns\<close> when the caller passed \<^verbatim>\<open>None\<close>: \<^verbatim>\<open>list(set(..) & set(..))\<close>.\<close>

definition resolve_columns :: "env \<Rightarrow> string list option \<Rightarrow> indexed \<Rightarrow> indexed \<Rightarrow> string list" where
  "resolve_columns e compare_columns hana_df snowflake_df =
     (case compare_columns of
        Some cs \<Rightarrow> cs
      | None \<Rightarrow> set_iter e (unique (filter (\<lambda>c. c \<in> set (cols snowflake_df)) (cols hana_df))))"

text \<open>\<^verbatim>\<open>df.loc[only].reset_index().to_dict('records')\<close>, skipped when \<^verbatim>\<open>only\<close> is empty.\<close>

definition only_records :: "indexed \<Rightarrow> pykey list \<Rightarrow> error + pydict list" where
  "only_records f only = (if only = [] then Inr [] else reset_index_records f (loc_keys f only))"

text \<open>The function from \<^verbatim>\<open>set_index\<close> on, given the two frames that were fetched.\<close>

definition compare_frames ::
  "env \<Rightarrow> frame \<Rightarrow> frame \<Rightarrow> string list \<Rightarrow> string list option \<Rightarrow> int \<Rightarrow> error + result" where
  "compare_frames e hana_fetched snowflake_fetched key_columns compare_columns chunk_size =
     (case set_index hana_fetched key_columns of
        Inl err \<Rightarrow> Inl err
      | Inr hana_df \<Rightarrow>
     (case set_index snowflake_fetched key_columns of
        Inl err \<Rightarrow> Inl err
      | Inr snowflake_df \<Rightarrow>
     (let cc = resolve_columns e compare_columns hana_df snowflake_df;
          only_in_hana_keys = index_difference e (index_of hana_df) (index_of snowflake_df);
          only_in_snowflake_keys = index_difference e (index_of snowflake_df) (index_of hana_df);
          common_keys = index_intersection (index_of hana_df) (index_of snowflake_df)
      in
     (case only_records hana_df only_in_hana_keys of
        Inl err \<Rightarrow> Inl err
      | Inr oh \<Rightarrow>
     (case only_records snowflake_df only_in_snowflake_keys of
        Inl err \<Rightarrow> Inl err
      | Inr os \<Rightarrow>
     (case py_range (length common_keys) chunk_size of
        Inl err \<Rightarrow> Inl err
      | Inr starts \<Rightarrow>
     (case chunk_loop e hana_df snowflake_df key_columns cc common_keys (nat chunk_size) starts [] of
        Inl err \<Rightarrow> Inl err
      | Inr vd \<Rightarrow>
          Inr \<lparr>timestamp = now e,
               hana_row_count = length (entries hana_df),
               snowflake_row_count = length (entries snowflake_df),
               columns_compared = cc,
               only_in_hana = oh,
               only_in_snowflake = os,
               value_differences = vd\<rparr>)))))))"

subsection \<open>The connectors\<close>

text \<open>
  A connector holds its connection once it has one. \<^verbatim>\<open>execute_query\<close> connects first when
  there is none (\<^verbatim>\<open>get_connection\<close> of the singleton may raise, or hand back \<^verbatim>\<open>None\<close>),
  then runs the query on a cursor and builds the frame. The data store is a \<open>backend\<close>.
\<close>

datatype conn = Conn

record connector =
  connection :: "conn option"

record backend =
  get_connection :: "error + conn option"
  fetch_frame :: "string \<Rightarrow> error + frame"

definition execute_query :: "backend \<Rightarrow> connector \<Rightarrow> string \<Rightarrow> connector \<times> (error + frame)" where
  "execute_query b c query =
     (if connection c = None
      then (case get_connection b of
              Inl err \<Rightarrow> (c, Inl err)
            | Inr None \<Rightarrow> (c\<lparr>connection := None\<rparr>, Inl AttributeError)
            | Inr (Some k) \<Rightarrow> (c\<lparr>connection := Some k\<rparr>, fetch_frame b query))
      else (c, fetch_frame b query))"

record comparator =
  hana :: connector
  snowflake :: connector

definition compare_tables ::
  "env \<Rightarrow> backend \<Rightarrow> backend \<Rightarrow> comparator \<Rightarrow> string \<Rightarrow> string \<Rightarrow> string list \<Rightarrow>
   string list option \<Rightarrow> int \<Rightarrow> comparator \<times> (error + result)" where
  "compare_tables e hana_db snowflake_db self hana_query snowflake_query key_columns
     compare_columns chunk_size =
     (case execute_query hana_db (hana self) hana_query of
        (h, Inl err) \<Rightarrow> (self\<lparr>hana := h\<rparr>, Inl err)
      | (h, Inr hana_df) \<Rightarrow>
     (case execute_query snowflake_db (snowflake self) snowflake_query of
        (s, Inl err) \<Rightarrow> (self\<lparr>hana := h, snowflake := s\<rparr>, Inl err)
      | (s, Inr snowflake_df) \<Rightarrow>
          (self\<lparr>hana := h, snowflake := s\<rparr>,
           compare_frames e hana_df snowflake_df key_columns compare_columns chunk_size)))"

subsection \<open>The second copy, \<^verbatim>\<open>data_ops/scripts/hana_snowflake_comparison.py\<close>\<close>

text \<open>
  The same statements with \<^verbatim>\<open>src\<close> and \<^verbatim>\<open>tgt\<close> in the names of the variables and of the
  dictionary keys. The keys that both copies use carry the suffix \<open>_src\<close> here.
\<close>

record difference_src =
  src_value :: cellval
  tgt_value :: cellval

record value_difference_src =
  key_src :: pydict
  differences_src :: "(string \<times> difference_src) list"

record result_src =
  timestamp_src :: string
  src_row_count :: nat
  tgt_row_count :: nat
  columns_compared_src :: "string list"
  only_in_src :: "pydict list"
  only_in_tgt :: "pydict list"
  value_differences_src :: "value_difference_src list"

fun column_loop_src ::
  "env \<Rightarrow> indexed \<Rightarrow> pyval list list \<Rightarrow> indexed \<Rightarrow> pyval list list \<Rightarrow> string list \<Rightarrow>
   (string \<times> difference_src) list \<Rightarrow> error + (string \<times> difference_src) list" where
  "column_loop_src e src_df src_row tgt_df tgt_row [] d = Inr d"
| "column_loop_src e src_df src_row tgt_df tgt_row (col # cs) d =
     (let src_val = get_val e src_df src_row col;
          tgt_val = get_val e tgt_df tgt_row col
      in case values_differ e src_val tgt_val of
           Inl err \<Rightarrow> Inl err
         | Inr t \<Rightarrow>
             column_loop_src e src_df src_row tgt_df tgt_row cs
               (if t then dict_set col \<lparr>src_value = src_val, tgt_value = tgt_val\<rparr> d else d))"

definition key_entry_src ::
  "env \<Rightarrow> indexed \<Rightarrow> indexed \<Rightarrow> string list \<Rightarrow> string list \<Rightarrow> pykey \<Rightarrow>
   error + value_difference_src option" where
  "key_entry_src e src_df tgt_df key_columns compare_columns k =
     (case loc src_df k of
        Inl err \<Rightarrow> Inl err
      | Inr src_row \<Rightarrow>
     (case loc tgt_df k of
        Inl err \<Rightarrow> Inl err
      | Inr tgt_row \<Rightarrow>
     (case column_loop_src e src_df src_row tgt_df tgt_row compare_columns [] of
        Inl err \<Rightarrow> Inl err
      | Inr d \<Rightarrow>
          Inr (if d = [] then None
               else Some \<lparr>key_src = py_dict (zip key_columns k), differences_src = d\<rparr>))))"

fun key_loop_src ::
  "env \<Rightarrow> indexed \<Rightarrow> indexed \<Rightarrow> string list \<Rightarrow> string list \<Rightarrow> pykey list \<Rightarrow>
   value_difference_src list \<Rightarrow> error + value_difference_src list" where
  "key_loop_src e src_df tgt_df key_columns compare_columns [] acc = Inr acc"
| "key_loop_src e src_df tgt_df key_columns compare_columns (k # ks) acc =
     (case key_entry_src e src_df tgt_df key_columns compare_columns k of
        Inl err \<Rightarrow> Inl err
      | Inr None \<Rightarrow> key_loop_src e src_df tgt_df key_columns compare_columns ks acc
      | Inr (Some v) \<Rightarrow> key_loop_src e src_df tgt_df key_columns compare_columns ks (acc @ [v]))"

fun chunk_loop_src ::
  "env \<Rightarrow> indexed \<Rightarrow> indexed \<Rightarrow> string list \<Rightarrow> string list \<Rightarrow> pykey list \<Rightarrow> nat \<Rightarrow>
   nat list \<Rightarrow> value_difference_src list \<Rightarrow> error + value_difference_src list" where
  "chunk_loop_src e src_df tgt_df key_columns compare_columns common_keys chunk_size [] acc =
     Inr acc"
| "chunk_loop_src e src_df tgt_df key_columns compare_columns common_keys chunk_size (i # is) acc =
     (case key_loop_src e src_df tgt_df key_columns compare_columns
             (take chunk_size (drop i common_keys)) acc of
        Inl err \<Rightarrow> Inl err
      | Inr acc' \<Rightarrow>
          chunk_loop_src e src_df tgt_df key_columns compare_columns common_keys chunk_size
            is acc')"

definition compare_frames_src ::
  "env \<Rightarrow> frame \<Rightarrow> frame \<Rightarrow> string list \<Rightarrow> string list option \<Rightarrow> int \<Rightarrow> error + result_src" where
  "compare_frames_src e src_fetched tgt_fetched key_columns compare_columns chunk_size =
     (case set_index src_fetched key_columns of
        Inl err \<Rightarrow> Inl err
      | Inr src_df \<Rightarrow>
     (case set_index tgt_fetched key_columns of
        Inl err \<Rightarrow> Inl err
      | Inr tgt_df \<Rightarrow>
     (let cc = resolve_columns e compare_columns src_df tgt_df;
          only_in_src_keys = index_difference e (index_of src_df) (index_of tgt_df);
          only_in_tgt_keys = index_difference e (index_of tgt_df) (index_of src_df);
          common_keys = index_intersection (index_of src_df) (index_of tgt_df)
      in
     (case only_records src_df only_in_src_keys of
        Inl err \<Rightarrow> Inl err
      | Inr os \<Rightarrow>
     (case only_records tgt_df only_in_tgt_keys of
        Inl err \<Rightarrow> Inl err
      | Inr ot \<Rightarrow>
     (case py_range (length common_keys) chunk_size of
        Inl err \<Rightarrow> Inl err
      | Inr starts \<Rightarrow>
     (case chunk_loop_src e src_df tgt_df key_columns cc common_keys (nat chunk_size) starts [] of
        Inl err \<Rightarrow> Inl err
      | Inr vd \<Rightarrow>
          Inr \<lparr>timestamp_src = now e,
               src_row_count = length (entries src_df),
               tgt_row_count = length (entries tgt_df),
               columns_compared_src = cc,
               only_in_src = os,
               only_in_tgt = ot,
               value_differences_src = vd\<rparr>)))))))"

record comparator_src =
  src_sys :: connector
  tgt_sys :: connector

definition compare_tables_src ::
  "env \<Rightarrow> backend \<Rightarrow> backend \<Rightarrow> comparator_src \<Rightarrow> string \<Rightarrow> string \<Rightarrow> string list \<Rightarrow>
   string list option \<Rightarrow> int \<Rightarrow> comparator_src \<times> (error + result_src)" where
  "compare_tables_src e src_db tgt_db self src_query tgt_query key_columns
     compare_columns chunk_size =
     (case execute_query src_db (src_sys self) src_query of
        (h, Inl err) \<Rightarrow> (self\<lparr>src_sys := h\<rparr>, Inl err)
      | (h, Inr src_df) \<Rightarrow>
     (case execute_query tgt_db (tgt_sys self) tgt_query of
        (s, Inl err) \<Rightarrow> (self\<lparr>src_sys := h, tgt_sys := s\<rparr>, Inl err)
      | (s, Inr tgt_df) \<Rightarrow>
          (self\<lparr>src_sys := h, tgt_sys := s\<rparr>,
           compare_frames_src e src_df tgt_df key_columns compare_columns chunk_size)))"

text \<open>The renaming of the keys that takes a result of the first copy to one of the second.\<close>

definition rename_difference :: "difference \<Rightarrow> difference_src" where
  "rename_difference d = \<lparr>src_value = hana_value d, tgt_value = snowflake_value d\<rparr>"

definition rename_value_difference :: "value_difference \<Rightarrow> value_difference_src" where
  "rename_value_difference v =
     \<lparr>key_src = key v,
      differences_src = map (\<lambda>p. (fst p, rename_difference (snd p))) (differences v)\<rparr>"

definition rename_result :: "result \<Rightarrow> result_src" where
  "rename_result r =
     \<lparr>timestamp_src = timestamp r,
      src_row_count = hana_row_count r,
      tgt_row_count = snowflake_row_count r,
      columns_compared_src = columns_compared r,
      only_in_src = only_in_hana r,
      only_in_tgt = only_in_snowflake r,
      value_differences_src = map rename_value_difference (value_differences r)\<rparr>"

definition rename_comparator :: "comparator \<Rightarrow> comparator_src" where
  "rename_comparator c = \<lparr>src_sys = hana c, tgt_sys = snowflake c\<rparr>"

subsection \<open>The comparison without chunks\<close>

text \<open>
  The specification calls the chunks a batching device: the comparison it describes
  visits the common keys in one pass. This is \<open>compare_frames\<close> with the chunk loop
  replaced by one run of the key loop over all common keys.
\<close>

definition compare_frames_unchunked ::
  "env \<Rightarrow> frame \<Rightarrow> frame \<Rightarrow> string list \<Rightarrow> string list option \<Rightarrow> error + result" where
  "compare_frames_unchunked e hana_fetched snowflake_fetched key_columns compare_columns =
     (case set_index hana_fetched key_columns of
        Inl err \<Rightarrow> Inl err
      | Inr hana_df \<Rightarrow>
     (case set_index snowflake_fetched key_columns of
        Inl err \<Rightarrow> Inl err
      | Inr snowflake_df \<Rightarrow>
     (let cc = resolve_columns e compare_columns hana_df snowflake_df;
          only_in_hana_keys = index_difference e (index_of hana_df) (index_of snowflake_df);
          only_in_snowflake_keys = index_difference e (index_of snowflake_df) (index_of hana_df);
          common_keys = index_intersection (index_of hana_df) (index_of snowflake_df)
      in
     (case only_records hana_df only_in_hana_keys of
        Inl err \<Rightarrow> Inl err
      | Inr oh \<Rightarrow>
     (case only_records snowflake_df only_in_snowflake_keys of
        Inl err \<Rightarrow> Inl err
      | Inr os \<Rightarrow>
     (case key_loop e hana_df snowflake_df key_columns cc common_keys [] of
        Inl err \<Rightarrow> Inl err
      | Inr vd \<Rightarrow>
          Inr \<lparr>timestamp = now e,
               hana_row_count = length (entries hana_df),
               snowflake_row_count = length (entries snowflake_df),
               columns_compared = cc,
               only_in_hana = oh,
               only_in_snowflake = os,
               value_differences = vd\<rparr>))))))"

subsection \<open>Sample runs\<close>

text \<open>
  Surroundings in which the orderings leave their argument as it is and a row hands out
  the cells as the frame holds them, as pandas does for a frame whose columns hold
  objects. The sample frames have an integer key \<^verbatim>\<open>id\<close>. In \<open>frame_a\<close> and \<open>frame_b\<close> the
  column \<^verbatim>\<open>v\<close> holds \<^verbatim>\<open>int\<close> and \<^verbatim>\<open>str\<close> objects side by side; the other frames are used
  where no cell is compared. No sample holds a float, so that \<open>float_test\<close> and
  \<open>float_ne\<close> are never asked.
\<close>

definition env0 :: env where
  "env0 = \<lparr>now = ''2024-01-01T00:00:00'', set_iter = (\<lambda>xs. xs), try_sort = (\<lambda>ks. ks),
           float_test = (\<lambda>a b. None), float_ne = (\<lambda>a b. True),
           row_value = (\<lambda>f c v. v)\<rparr>"

definition frame_a :: frame where
  "frame_a = \<lparr>columns = [''id'', ''v''],
              data = [[PInt 1, PInt 10], [PInt 2, PInt 20], [PInt 4, PStr ''x'']]\<rparr>"

definition frame_b :: frame where
  "frame_b = \<lparr>columns = [''id'', ''v''],
              data = [[PInt 1, PInt 11], [PInt 3, PInt 30], [PInt 4, PStr ''y'']]\<rparr>"


definition frame_empty :: frame where
  "frame_empty = \<lparr>columns = [''id'', ''v''], data = []\<rparr>"

definition frame_w :: frame where
  "frame_w = \<lparr>columns = [''id'', ''w''], data = [[PInt 1, PInt 11]]\<rparr>"




text \<open>
  Frames whose column \<^verbatim>\<open>x\<close> holds numbers of one type, integers in \<open>frame_i\<close> and floats in
  \<open>frame_f\<close> (the double \<^verbatim>\<open>1.00000000001\<close>), and surroundings for them: a row hands out
  numpy scalars, and the one pair of numbers that is compared, \<^verbatim>\<open>1\<close> and
  \<^verbatim>\<open>1.00000000001\<close>, is unequal and within the tolerance.
\<close>

definition frame_i :: frame where
  "frame_i = \<lparr>columns = [''id'', ''x''], data = [[PInt 1, PInt 1]]\<rparr>"

definition frame_f :: frame where
  "frame_f = \<lparr>columns = [''id'', ''x''], data = [[PInt 1, PFloat 0x3FF000000000AFEC]]\<rparr>"

definition numpy_scalar :: "pyval \<Rightarrow> pyval" where
  "numpy_scalar v = (case v of PInt n \<Rightarrow> PNpInt n | PBool b \<Rightarrow> PNpBool b | _ \<Rightarrow> v)"

definition env_np :: env where
  "env_np = \<lparr>now = ''2024-01-01T00:00:00'', set_iter = (\<lambda>xs. xs), try_sort = (\<lambda>ks. ks),
             float_test = (\<lambda>a b. Some False), float_ne = (\<lambda>a b. True),
             row_value = (\<lambda>f c v. numpy_scalar v)\<rparr>"

subsection \<open>The stages of \<open>compare_frames\<close>\<close>

text \<open>
  For the proofs, \<open>compare_frames\<close> is read in three stages: \<open>prepare\<close> is everything
  before the chunk loop, then comes the loop, and \<open>assemble\<close> is the dictionary returned.
\<close>

definition assemble ::
  "env \<Rightarrow> indexed \<Rightarrow> indexed \<Rightarrow> string list \<Rightarrow> pydict list \<Rightarrow> pydict list \<Rightarrow>
   value_difference list \<Rightarrow> result" where
  "assemble e hf sf cc oh os vd =
     \<lparr>timestamp = now e, hana_row_count = length (entries hf),
      snowflake_row_count = length (entries sf), columns_compared = cc,
      only_in_hana = oh, only_in_snowflake = os, value_differences = vd\<rparr>"

definition prepare ::
  "env \<Rightarrow> frame \<Rightarrow> frame \<Rightarrow> string list \<Rightarrow> string list option \<Rightarrow>
   error + (indexed \<times> indexed \<times> pydict list \<times> pydict list)" where
  "prepare e h s kc cc =
     (case set_index h kc of
        Inl err \<Rightarrow> Inl err
      | Inr hf \<Rightarrow>
     (case set_index s kc of
        Inl err \<Rightarrow> Inl err
      | Inr sf \<Rightarrow>
     (case only_records hf (index_difference e (index_of hf) (index_of sf)) of
        Inl err \<Rightarrow> Inl err
      | Inr oh \<Rightarrow>
     (case only_records sf (index_difference e (index_of sf) (index_of hf)) of
        Inl err \<Rightarrow> Inl err
      | Inr os \<Rightarrow> Inr (hf, sf, oh, os)))))"

section \<open>Properties\<close>

subsection \<open>Auxiliary facts\<close>

lemma compare_frames_prepare:
  "compare_frames e h s kc cc c =
     (case prepare e h s kc cc of
        Inl err \<Rightarrow> Inl err
      | Inr (hf, sf, oh, os) \<Rightarrow>
          (case py_range (length (index_intersection (index_of hf) (index_of sf))) c of
             Inl err \<Rightarrow> Inl err
           | Inr starts \<Rightarrow>
          (case chunk_loop e hf sf kc (resolve_columns e cc hf sf)
                  (index_intersection (index_of hf) (index_of sf)) (nat c) starts [] of
             Inl err \<Rightarrow> Inl err
           | Inr vd \<Rightarrow> Inr (assemble e hf sf (resolve_columns e cc hf sf) oh os vd))))"
  unfolding compare_frames_def prepare_def assemble_def Let_def
  by (simp split: sum.split)


declare range_up.simps [simp del]

lemma set_unique [simp]: "set (unique xs) = set xs"
  by (simp add: unique_def)

lemma distinct_unique [simp]: "distinct (unique xs)"
  by (simp add: unique_def)

lemma key_loop_append:
  "key_loop e h s kc cc (xs @ ys) acc =
     (case key_loop e h s kc cc xs acc of Inl err \<Rightarrow> Inl err | Inr acc' \<Rightarrow> key_loop e h s kc cc ys acc')"
  by (induction xs arbitrary: acc) (auto split: sum.splits option.splits)

lemma chunk_loop_range:
  "0 < c \<Longrightarrow>
   chunk_loop e h s kc cc common c (range_up i (length common) c) acc =
     key_loop e h s kc cc (drop i common) acc"
proof (induction i "length common" c arbitrary: acc rule: range_up.induct)
  case (1 i step)
  show ?case
  proof (cases "length common \<le> i")
    case True
    then show ?thesis by (simp add: range_up.simps [of i])
  next
    case False
    have split: "drop i common = take step (drop i common) @ drop (i + step) common"
      by (metis append_take_drop_id drop_drop add.commute)
    have "key_loop e h s kc cc (drop i common) acc =
          (case key_loop e h s kc cc (take step (drop i common)) acc of
             Inl err \<Rightarrow> Inl err
           | Inr acc' \<Rightarrow> key_loop e h s kc cc (drop (i + step) common) acc')"
      by (subst split) (rule key_loop_append)
    moreover have "\<And>acc'. chunk_loop e h s kc cc common step
                     (range_up (i + step) (length common) step) acc' =
                   key_loop e h s kc cc (drop (i + step) common) acc'"
      using "1.hyps" "1.prems" False by simp
    ultimately show ?thesis
      using False "1.prems" by (simp add: range_up.simps [of i] split: sum.splits)
  qed
qed

lemma compare_frames_unchunked_prepare:
  "compare_frames_unchunked e h s kc cc =
     (case prepare e h s kc cc of
        Inl err \<Rightarrow> Inl err
      | Inr (hf, sf, oh, os) \<Rightarrow>
          (case key_loop e hf sf kc (resolve_columns e cc hf sf)
                  (index_intersection (index_of hf) (index_of sf)) [] of
             Inl err \<Rightarrow> Inl err
           | Inr vd \<Rightarrow> Inr (assemble e hf sf (resolve_columns e cc hf sf) oh os vd)))"
  unfolding compare_frames_unchunked_def prepare_def assemble_def Let_def
  by (simp split: sum.split)

lemma compare_frames_pos:
  assumes "0 < c"
  shows "compare_frames e h s kc cc c = compare_frames_unchunked e h s kc cc"
proof (cases "prepare e h s kc cc")
  case (Inl err)
  then show ?thesis
    by (simp add: compare_frames_prepare compare_frames_unchunked_prepare)
next
  case (Inr p)
  obtain hf sf oh os where p: "p = (hf, sf, oh, os)" by (cases p) auto
  have "py_range (length (index_intersection (index_of hf) (index_of sf))) c =
        Inr (range_up 0 (length (index_intersection (index_of hf) (index_of sf))) (nat c))"
    using assms by (simp add: py_range_def)
  moreover have "0 < nat c" using assms by simp
  ultimately show ?thesis
    using Inr p
    by (simp add: compare_frames_prepare compare_frames_unchunked_prepare chunk_loop_range)
qed

subsection \<open>Chunking\<close>

text \<open>
  C6. For every two positive chunk sizes the comparison returns the same result (or
  raises the same error), and this is the result of the single pass over the common
  keys: the chunks only batch the keys, whatever their size, also when one chunk holds
  all keys.
\<close>

theorem chunk_size_invariance:
  assumes "0 < c" and "0 < c'"
  shows "compare_frames e h s kc cc c = compare_frames_unchunked e h s kc cc
       \<and> compare_frames e h s kc cc c = compare_frames e h s kc cc c'"
  using assms by (simp add: compare_frames_pos)

theorem chunk_size_invariance_witness:
  "(0::int) < 1 \<and> (0::int) < 10000
   \<and> compare_frames env0 frame_a frame_b [''id''] None 1 =
       compare_frames_unchunked env0 frame_a frame_b [''id''] None
   \<and> compare_frames env0 frame_a frame_b [''id''] None 1 =
       compare_frames env0 frame_a frame_b [''id''] None 10000"
proof -
  have pos: "(0::int) < 1" "(0::int) < 10000" by simp_all
  from chunk_size_invariance [OF pos, of env0 frame_a frame_b "[''id'']" None] pos
  show ?thesis by blast
qed

lemma set_index_Inr:
  "kc \<noteq> [] \<Longrightarrow> set kc \<subseteq> set (columns df) \<Longrightarrow> \<exists>f. set_index df kc = Inr f \<and> names f = kc"
  by (auto simp: set_index_def)

lemma set_index_names: "set_index df kc = Inr f \<Longrightarrow> names f = kc"
  by (auto simp: set_index_def split: if_splits)







subsection \<open>Chunk sizes that are not positive\<close>



subsection \<open>Independence of the clock and of earlier calls\<close>

lemma get_val_now [simp]: "get_val (e\<lparr>now := t\<rparr>) f rs c = get_val e f rs c"
  by (simp add: get_val_def cong: list.case_cong if_cong)

lemma py_ne_now [simp]: "py_ne (e\<lparr>now := t\<rparr>) a b = py_ne e a b"
  by (simp add: py_ne_def cong: option.case_cong if_cong)

lemma values_differ_now [simp]: "values_differ (e\<lparr>now := t\<rparr>) hv sv = values_differ e hv sv"
  by (simp add: values_differ_def exceeds_tolerance_def
        cong: cellval.case_cong option.case_cong if_cong)

lemma column_loop_now [simp]:
  "column_loop (e\<lparr>now := t\<rparr>) hf hr sf sr cs d = column_loop e hf hr sf sr cs d"
  by (induction cs arbitrary: d) (simp_all add: Let_def cong: sum.case_cong)

lemma key_entry_now [simp]:
  "key_entry (e\<lparr>now := t\<rparr>) hf sf kc cs k = key_entry e hf sf kc cs k"
  by (simp add: key_entry_def cong: sum.case_cong)

lemma key_loop_now [simp]:
  "key_loop (e\<lparr>now := t\<rparr>) hf sf kc cs ks acc = key_loop e hf sf kc cs ks acc"
  by (induction ks arbitrary: acc) (simp_all cong: sum.case_cong option.case_cong)

lemma chunk_loop_now [simp]:
  "chunk_loop (e\<lparr>now := t\<rparr>) hf sf kc cs common n starts acc =
     chunk_loop e hf sf kc cs common n starts acc"
  by (induction starts arbitrary: acc) (simp_all cong: sum.case_cong)

lemma prepare_now [simp]: "prepare (e\<lparr>now := t\<rparr>) h s kc cc = prepare e h s kc cc"
  by (simp add: prepare_def index_difference_def cong: sum.case_cong)

lemma resolve_columns_now [simp]:
  "resolve_columns (e\<lparr>now := t\<rparr>) cc hf sf = resolve_columns e cc hf sf"
  by (simp add: resolve_columns_def cong: option.case_cong)

lemma compare_frames_now:
  "compare_frames (e\<lparr>now := t\<rparr>) h s kc cc c =
     map_sum id (\<lambda>r. r\<lparr>timestamp := t\<rparr>) (compare_frames e h s kc cc c)"
proof (cases "prepare e h s kc cc")
  case (Inl err)
  then show ?thesis by (simp add: compare_frames_prepare)
next
  case (Inr p)
  obtain hf sf oh os where p: "p = (hf, sf, oh, os)" by (cases p) auto
  show ?thesis
  proof (cases "py_range (length (index_intersection (index_of hf) (index_of sf))) c")
    case (Inl err)
    with Inr p show ?thesis by (simp add: compare_frames_prepare)
  next
    case starts: (Inr starts)
    show ?thesis
    proof (cases "chunk_loop e hf sf kc (resolve_columns e cc hf sf)
                    (index_intersection (index_of hf) (index_of sf)) (nat c) starts []")
      case (Inl err)
      with Inr p starts show ?thesis by (simp add: compare_frames_prepare)
    next
      case (Inr vd)
      with \<open>prepare e h s kc cc = Inr p\<close> p starts show ?thesis
        by (simp add: compare_frames_prepare assemble_def)
    qed
  qed
qed

lemma execute_query_again:
  "execute_query b (fst (execute_query b c q)) q =
     (fst (execute_query b c q), snd (execute_query b c q))"
  by (cases "connection c"; cases "get_connection b")
     (auto simp: execute_query_def split: option.splits)


lemma compare_tables_again:
  "compare_tables e' db1 db2 (fst (compare_tables e db1 db2 self q1 q2 kc cc c)) q1 q2 kc cc c =
     (fst (compare_tables e db1 db2 self q1 q2 kc cc c),
      case snd (execute_query db1 (hana self) q1) of
        Inl err \<Rightarrow> Inl err
      | Inr hana_df \<Rightarrow>
          (case snd (execute_query db2 (snowflake self) q2) of
             Inl err \<Rightarrow> Inl err
           | Inr snowflake_df \<Rightarrow> compare_frames e' hana_df snowflake_df kc cc c))"
proof -
  obtain h rh where h: "execute_query db1 (hana self) q1 = (h, rh)"
    by (cases "execute_query db1 (hana self) q1") auto
  obtain s rs where s: "execute_query db2 (snowflake self) q2 = (s, rs)"
    by (cases "execute_query db2 (snowflake self) q2") auto
  from execute_query_again [of db1 "hana self" q1] h
  have h': "execute_query db1 h q1 = (h, rh)" by simp
  from execute_query_again [of db2 "snowflake self" q2] s
  have s': "execute_query db2 s q2 = (s, rs)" by simp
  show ?thesis
  proof (cases rh)
    case (Inl err)
    with h h' show ?thesis by (simp add: compare_tables_def)
  next
    case hd: (Inr hana_df)
    show ?thesis
    proof (cases rs)
      case (Inl err)
      with hd h h' s s' show ?thesis by (simp add: compare_tables_def)
    next
      case (Inr snowflake_df)
      with hd h h' s s' show ?thesis by (simp add: compare_tables_def)
    qed
  qed
qed

lemma compare_tables_snd:
  "snd (compare_tables e db1 db2 self q1 q2 kc cc c) =
     (case snd (execute_query db1 (hana self) q1) of
        Inl err \<Rightarrow> Inl err
      | Inr hana_df \<Rightarrow>
          (case snd (execute_query db2 (snowflake self) q2) of
             Inl err \<Rightarrow> Inl err
           | Inr snowflake_df \<Rightarrow> compare_frames e hana_df snowflake_df kc cc c))"
  by (cases "execute_query db1 (hana self) q1"; cases "execute_query db2 (snowflake self) q2")
     (simp add: compare_tables_def split: sum.split)

text \<open>
  C8. The comparison is a function of its inputs. The clock enters the result only in the
  field \<open>timestamp\<close>: with another clock reading the same frames give the same result up to
  that field. Calling \<open>compare_tables\<close> a second time on the comparator that the first call
  left behind, with the same backends, queries and parameters, leaves the comparator as
  it is and returns the same result, or the same error, up to the timestamp.
\<close>

theorem repeated_invocation:
  "compare_frames (e\<lparr>now := t\<rparr>) h s kc cc c =
     map_sum id (\<lambda>r. r\<lparr>timestamp := t\<rparr>) (compare_frames e h s kc cc c)
   \<and> compare_tables (e\<lparr>now := t\<rparr>) db1 db2
        (fst (compare_tables e db1 db2 self q1 q2 kc cc c)) q1 q2 kc cc c =
       (fst (compare_tables e db1 db2 self q1 q2 kc cc c),
        map_sum id (\<lambda>r. r\<lparr>timestamp := t\<rparr>)
          (snd (compare_tables e db1 db2 self q1 q2 kc cc c)))"
proof
  show "compare_frames (e\<lparr>now := t\<rparr>) h s kc cc c =
          map_sum id (\<lambda>r. r\<lparr>timestamp := t\<rparr>) (compare_frames e h s kc cc c)"
    by (rule compare_frames_now)
next
  show "compare_tables (e\<lparr>now := t\<rparr>) db1 db2
        (fst (compare_tables e db1 db2 self q1 q2 kc cc c)) q1 q2 kc cc c =
       (fst (compare_tables e db1 db2 self q1 q2 kc cc c),
        map_sum id (\<lambda>r. r\<lparr>timestamp := t\<rparr>)
          (snd (compare_tables e db1 db2 self q1 q2 kc cc c)))"
    unfolding compare_tables_again compare_tables_snd
    by (simp add: compare_frames_now split: sum.split)
qed

subsection \<open>The two copies\<close>

lemma dict_set_map:
  "dict_set c (f v) (map (\<lambda>p. (fst p, f (snd p))) d) = map (\<lambda>p. (fst p, f (snd p))) (dict_set c v d)"
  by (induction d) auto

lemma column_loop_src_rename:
  "column_loop_src e hf hr sf sr cs (map (\<lambda>p. (fst p, rename_difference (snd p))) d) =
     map_sum id (map (\<lambda>p. (fst p, rename_difference (snd p)))) (column_loop e hf hr sf sr cs d)"
proof (induction cs arbitrary: d)
  case Nil
  show ?case by simp
next
  case (Cons c cs)
  have step: "dict_set c \<lparr>src_value = get_val e hf hr c, tgt_value = get_val e sf sr c\<rparr>
                (map (\<lambda>p. (fst p, rename_difference (snd p))) d) =
              map (\<lambda>p. (fst p, rename_difference (snd p)))
                (dict_set c \<lparr>hana_value = get_val e hf hr c, snowflake_value = get_val e sf sr c\<rparr> d)"
    using dict_set_map [of c rename_difference
        "\<lparr>hana_value = get_val e hf hr c, snowflake_value = get_val e sf sr c\<rparr>" d]
    by (simp add: rename_difference_def)
  show ?case
  proof (cases "values_differ e (get_val e hf hr c) (get_val e sf sr c)")
    case (Inl err)
    then show ?thesis by (simp add: Let_def)
  next
    case (Inr t)
    then show ?thesis
      using Cons.IH [of d]
        Cons.IH [of "dict_set c \<lparr>hana_value = get_val e hf hr c, snowflake_value = get_val e sf sr c\<rparr> d"]
      by (simp add: Let_def step)
  qed
qed

lemma key_entry_src_rename:
  "key_entry_src e hf sf kc cs k =
     map_sum id (map_option rename_value_difference) (key_entry e hf sf kc cs k)"
proof -
  have cl: "column_loop_src e hf hr sf sr cs [] =
        map_sum id (map (\<lambda>p. (fst p, rename_difference (snd p)))) (column_loop e hf hr sf sr cs [])"
    for hr sr
    using column_loop_src_rename [of e hf hr sf sr cs "[]"] by simp
  show ?thesis
    by (simp add: key_entry_src_def key_entry_def cl rename_value_difference_def
             split: sum.splits)
qed

lemma key_loop_src_rename:
  "key_loop_src e hf sf kc cs ks (map rename_value_difference acc) =
     map_sum id (map rename_value_difference) (key_loop e hf sf kc cs ks acc)"
proof (induction ks arbitrary: acc)
  case Nil
  show ?case by simp
next
  case (Cons k ks)
  show ?case
  proof (cases "key_entry e hf sf kc cs k")
    case (Inl err)
    then show ?thesis by (simp add: key_entry_src_rename)
  next
    case (Inr v)
    show ?thesis
    proof (cases v)
      case None
      with Inr show ?thesis using Cons.IH [of acc] by (simp add: key_entry_src_rename)
    next
      case (Some w)
      with Inr show ?thesis using Cons.IH [of "acc @ [w]"] by (simp add: key_entry_src_rename)
    qed
  qed
qed

lemma chunk_loop_src_rename:
  "chunk_loop_src e hf sf kc cs common n starts (map rename_value_difference acc) =
     map_sum id (map rename_value_difference) (chunk_loop e hf sf kc cs common n starts acc)"
proof (induction starts arbitrary: acc)
  case Nil
  show ?case by simp
next
  case (Cons i starts)
  show ?case
  proof (cases "key_loop e hf sf kc cs (take n (drop i common)) acc")
    case (Inl err)
    then show ?thesis by (simp add: key_loop_src_rename)
  next
    case (Inr acc')
    then show ?thesis using Cons.IH [of acc'] by (simp add: key_loop_src_rename)
  qed
qed


lemma compare_frames_src_prepare:
  "compare_frames_src e h s kc cc c =
     (case prepare e h s kc cc of
        Inl err \<Rightarrow> Inl err
      | Inr (hf, sf, oh, os) \<Rightarrow>
          (case py_range (length (index_intersection (index_of hf) (index_of sf))) c of
             Inl err \<Rightarrow> Inl err
           | Inr starts \<Rightarrow>
          (case chunk_loop_src e hf sf kc (resolve_columns e cc hf sf)
                  (index_intersection (index_of hf) (index_of sf)) (nat c) starts [] of
             Inl err \<Rightarrow> Inl err
           | Inr vd \<Rightarrow>
               Inr \<lparr>timestamp_src = now e, src_row_count = length (entries hf),
                    tgt_row_count = length (entries sf),
                    columns_compared_src = resolve_columns e cc hf sf,
                    only_in_src = oh, only_in_tgt = os, value_differences_src = vd\<rparr>)))"
  unfolding compare_frames_src_def prepare_def Let_def
  by (simp split: sum.split)

lemma compare_frames_src_rename:
  "compare_frames_src e h s kc cc c = map_sum id rename_result (compare_frames e h s kc cc c)"
proof (cases "prepare e h s kc cc")
  case (Inl err)
  then show ?thesis by (simp add: compare_frames_src_prepare compare_frames_prepare)
next
  case (Inr p)
  obtain hf sf oh os where p: "p = (hf, sf, oh, os)" by (cases p) auto
  let ?common = "index_intersection (index_of hf) (index_of sf)"
  let ?cols = "resolve_columns e cc hf sf"
  show ?thesis
  proof (cases "py_range (length ?common) c")
    case (Inl err)
    with Inr p show ?thesis by (simp add: compare_frames_src_prepare compare_frames_prepare)
  next
    case starts: (Inr starts)
    have cl: "chunk_loop_src e hf sf kc ?cols ?common (nat c) starts [] =
          map_sum id (map rename_value_difference)
            (chunk_loop e hf sf kc ?cols ?common (nat c) starts [])"
      using chunk_loop_src_rename [of e hf sf kc ?cols ?common "nat c" starts "[]"] by simp
    show ?thesis
    proof (cases "chunk_loop e hf sf kc ?cols ?common (nat c) starts []")
      case (Inl err)
      with Inr p starts cl show ?thesis
        by (simp add: compare_frames_src_prepare compare_frames_prepare)
    next
      case vd: (Inr vd)
      with Inr p starts cl show ?thesis
        by (simp add: compare_frames_src_prepare compare_frames_prepare assemble_def
                 rename_result_def)
    qed
  qed
qed

text \<open>
  C9. The copy in \<^verbatim>\<open>data_ops/scripts\<close> computes what the first copy computes: on the same
  frames, key columns, columns to compare and chunk size it returns the result of the
  first copy with the keys renamed (\<open>hana\<close> to \<open>src\<close>, \<open>snowflake\<close> to \<open>tgt\<close>), or the same
  error, and \<open>compare_tables\<close> of both copies agree in the same way, the state of the
  connectors included. With the same clock reading the timestamps agree as well.
\<close>

theorem copies_agree:
  "compare_frames_src e h s kc cc c = map_sum id rename_result (compare_frames e h s kc cc c)
   \<and> compare_tables_src e db1 db2 (rename_comparator self) q1 q2 kc cc c =
       map_prod rename_comparator (map_sum id rename_result)
         (compare_tables e db1 db2 self q1 q2 kc cc c)"
proof
  show "compare_frames_src e h s kc cc c = map_sum id rename_result (compare_frames e h s kc cc c)"
    by (rule compare_frames_src_rename)
next
  obtain c1 r1 where q1: "execute_query db1 (hana self) q1 = (c1, r1)" by (cases "execute_query db1 (hana self) q1")
  obtain c2 r2 where q2: "execute_query db2 (snowflake self) q2 = (c2, r2)" by (cases "execute_query db2 (snowflake self) q2")
  show "compare_tables_src e db1 db2 (rename_comparator self) q1 q2 kc cc c =
       map_prod rename_comparator (map_sum id rename_result)
         (compare_tables e db1 db2 self q1 q2 kc cc c)"
    using q1 q2
    by (cases r1; cases r2)
       (simp_all add: compare_tables_src_def compare_tables_def rename_comparator_def
          compare_frames_src_rename)
qed

subsection \<open>Facts about the stages and the calls\<close>





lemma set_index_intersection [simp]: "set (index_intersection a b) = set a \<inter> set b"
  by (auto simp: index_intersection_def)







lemma distinct_index_intersection [simp]: "distinct (index_intersection a b)"
  by (simp add: index_intersection_def)





lemma set_index_index_of:
  "set_index h kc = Inr hf \<Longrightarrow> index_of hf = map (\<lambda>r. map (cell (columns h) r) kc) (data h)"
  by (auto simp: set_index_def index_of_def split: if_splits)



subsection \<open>Malformed key columns\<close>

lemma set_index_missing:
  "\<not> set kc \<subseteq> set (columns df) \<Longrightarrow> set_index df kc = Inl KeyError"
  by (auto simp: set_index_def)

lemma set_index_no_keys:
  "data df \<noteq> [] \<Longrightarrow> set_index df [] = Inl ValueError"
  by (simp add: set_index_def)

lemma set_index_empty_frame:
  "data df = [] \<Longrightarrow> \<exists>f. set_index df [] = Inr f"
  by (simp add: set_index_def)

lemma compare_frames_hana_index:
  "set_index h kc = Inl err \<Longrightarrow> compare_frames e h s kc cc c = Inl err"
  by (simp add: compare_frames_def)

lemma compare_frames_snowflake_index:
  "set_index h kc = Inr hf \<Longrightarrow> set_index s kc = Inl err \<Longrightarrow>
   compare_frames e h s kc cc c = Inl err"
  by (simp add: compare_frames_def)

text \<open>
  C5, as the specification words it, has every empty key column list fail. With two
  frames that have no rows the empty list is accepted and a result is returned.
\<close>

theorem empty_keys_accepted:
  "compare_frames env0 frame_empty frame_empty [] None 10000 =
     Inr \<lparr>timestamp = ''2024-01-01T00:00:00'', hana_row_count = 0, snowflake_row_count = 0,
          columns_compared = [''id'', ''v''], only_in_hana = [], only_in_snowflake = [],
          value_differences = []\<rparr>"
  by code_simp

text \<open>
  C5, amended. There is no \<^verbatim>\<open>SchemaError\<close>: the exceptions are those of pandas. When a key
  column is missing from the columns of either frame the call ends in \<^verbatim>\<open>KeyError\<close>; when
  the key column list is empty and a frame has rows it ends in \<^verbatim>\<open>ValueError\<close>. With a
  key column list that is not empty and whose columns both frames have, the column
  names of each frame being distinct, both indexes are built, holding the key of every
  row.
\<close>

theorem malformed_keys:
  "((\<not> set kc \<subseteq> set (columns h) \<or> \<not> set kc \<subseteq> set (columns s))
      \<longrightarrow> compare_frames e h s kc cc c = Inl KeyError)
   \<and> (kc = [] \<and> (data h \<noteq> [] \<or> data s \<noteq> [])
      \<longrightarrow> compare_frames e h s kc cc c = Inl ValueError)
   \<and> (wf_frame h \<and> wf_frame s
        \<and> kc \<noteq> [] \<and> set kc \<subseteq> set (columns h) \<and> set kc \<subseteq> set (columns s)
      \<longrightarrow> (\<exists>hf sf. set_index h kc = Inr hf \<and> set_index s kc = Inr sf
                \<and> index_of hf = map (key_of h kc) (data h)
                \<and> index_of sf = map (key_of s kc) (data s)))"
proof (intro conjI impI)
  assume a: "\<not> set kc \<subseteq> set (columns h) \<or> \<not> set kc \<subseteq> set (columns s)"
  show "compare_frames e h s kc cc c = Inl KeyError"
  proof (cases "set kc \<subseteq> set (columns h)")
    case False
    from compare_frames_hana_index [OF set_index_missing [OF False]] show ?thesis .
  next
    case True
    with a have ms: "\<not> set kc \<subseteq> set (columns s)" by simp
    then have "kc \<noteq> []" by auto
    from set_index_Inr [OF this True] obtain hf where "set_index h kc = Inr hf" by blast
    from compare_frames_snowflake_index [OF this set_index_missing [OF ms]] show ?thesis .
  qed
next
  assume a: "kc = [] \<and> (data h \<noteq> [] \<or> data s \<noteq> [])"
  show "compare_frames e h s kc cc c = Inl ValueError"
  proof (cases "data h = []")
    case False
    from compare_frames_hana_index [OF set_index_no_keys [OF False]] a show ?thesis by simp
  next
    case True
    with a have ds: "data s \<noteq> []" by simp
    from set_index_empty_frame [OF True] obtain hf where "set_index h [] = Inr hf" ..
    from compare_frames_snowflake_index [OF this set_index_no_keys [OF ds]] a
    show ?thesis by simp
  qed
next
  assume a: "wf_frame h \<and> wf_frame s
        \<and> kc \<noteq> [] \<and> set kc \<subseteq> set (columns h) \<and> set kc \<subseteq> set (columns s)"
  then have kc: "kc \<noteq> []" and h: "set kc \<subseteq> set (columns h)" and s: "set kc \<subseteq> set (columns s)"
    by simp_all
  from set_index_Inr [OF kc h] obtain hf where hf: "set_index h kc = Inr hf" by blast
  from set_index_Inr [OF kc s] obtain sf where sf: "set_index s kc = Inr sf" by blast
  from set_index_index_of [OF hf] have ih: "index_of hf = map (key_of h kc) (data h)"
    by (simp add: key_of_def)
  from set_index_index_of [OF sf] have is': "index_of sf = map (key_of s kc) (data s)"
    by (simp add: key_of_def)
  from hf sf ih is' show "\<exists>hf sf. set_index h kc = Inr hf \<and> set_index s kc = Inr sf
                \<and> index_of hf = map (key_of h kc) (data h)
                \<and> index_of sf = map (key_of s kc) (data s)"
    by blast
qed

theorem malformed_keys_witness:
  "\<not> set [''v''] \<subseteq> set (columns frame_w)
   \<and> compare_frames env0 frame_a frame_w [''v''] None 10000 = Inl KeyError
   \<and> data frame_a \<noteq> []
   \<and> compare_frames env0 frame_a frame_b [] None 10000 = Inl ValueError
   \<and> wf_frame frame_a \<and> wf_frame frame_b
   \<and> [''id''] \<noteq> [] \<and> set [''id''] \<subseteq> set (columns frame_a) \<and> set [''id''] \<subseteq> set (columns frame_b)
   \<and> (\<exists>hf sf. set_index frame_a [''id''] = Inr hf \<and> set_index frame_b [''id''] = Inr sf
          \<and> index_of hf = [[PInt 1], [PInt 2], [PInt 4]]
          \<and> index_of sf = [[PInt 1], [PInt 3], [PInt 4]])"
proof -
  have m: "\<not> set [''v''] \<subseteq> set (columns frame_w)" by (simp add: frame_w_def)
  have d: "data frame_a \<noteq> []" by (simp add: frame_a_def)
  have k: "[''id''] \<noteq> [] \<and> set [''id''] \<subseteq> set (columns frame_a) \<and> set [''id''] \<subseteq> set (columns frame_b)"
    by (simp add: frame_a_def frame_b_def)
  from m have m': "\<not> set [''v''] \<subseteq> set (columns frame_a) \<or> \<not> set [''v''] \<subseteq> set (columns frame_w)" ..
  note w1 = malformed_keys [of "[''v'']" frame_a frame_w env0 None 10000,
      THEN conjunct1, THEN mp, OF m']
  from d have d': "[] = ([] :: string list) \<and> (data frame_a \<noteq> [] \<or> data frame_b \<noteq> [])" by simp
  note w2 = malformed_keys [of "[]" frame_a frame_b env0 None 10000,
      THEN conjunct2, THEN conjunct1, THEN mp, OF d']
  have wa: "wf_frame frame_a" by (simp add: wf_frame_def frame_a_def)
  have wb: "wf_frame frame_b" by (simp add: wf_frame_def frame_b_def)
  from wa wb k have k': "wf_frame frame_a \<and> wf_frame frame_b
      \<and> [''id''] \<noteq> [] \<and> set [''id''] \<subseteq> set (columns frame_a) \<and> set [''id''] \<subseteq> set (columns frame_b)"
    by (intro conjI) simp_all
  note w3 = malformed_keys [of "[''id'']" frame_a frame_b env0 None 10000,
      THEN conjunct2, THEN conjunct2, THEN mp, OF k']
  have ka: "map (key_of frame_a [''id'']) (data frame_a) = [[PInt 1], [PInt 2], [PInt 4]]"
    by (simp add: key_of_def frame_a_def cell_def)
  have kb: "map (key_of frame_b [''id'']) (data frame_b) = [[PInt 1], [PInt 3], [PInt 4]]"
    by (simp add: key_of_def frame_b_def cell_def)
  from k have k1: "[''id''] \<noteq> []" and k2: "set [''id''] \<subseteq> set (columns frame_a)"
    and k3: "set [''id''] \<subseteq> set (columns frame_b)" by simp_all
  show ?thesis by (intro conjI m w1 d w2 wa wb k1 k2 k3 w3 [unfolded ka kb])
qed

subsection \<open>Resolution of the columns to compare\<close>





subsection \<open>Rows and their records\<close>








subsection \<open>Partition of the keys\<close>




subsection \<open>Keys that repeat\<close>









subsection \<open>The dictionaries of differences\<close>















subsection \<open>Numbers\<close>

text \<open>
  C2. The tolerance is applied only where both values are instances of \<^verbatim>\<open>int\<close> or
  \<^verbatim>\<open>float\<close>. The cell of a column of integers reaches the comparison as a \<^verbatim>\<open>numpy.int64\<close>,
  which is neither: next to a float it is compared by \<^verbatim>\<open>!=\<close>, whatever the tolerance
  test would say. With the integer \<^verbatim>\<open>1\<close> on one side and the float \<^verbatim>\<open>1.00000000001\<close> on the
  other, which differ by less than the tolerance, a difference is recorded.
\<close>

theorem tolerance_skipped:
  "values_differ e (Scalar (PNpInt m)) (Scalar (PFloat w)) = Inr (float_ne e (PNpInt m) (PFloat w))
   \<and> values_differ e (Scalar (PFloat w)) (Scalar (PNpInt m)) = Inr (float_ne e (PFloat w) (PNpInt m))
   \<and> float_test env_np (PInt 1) (PFloat 0x3FF000000000AFEC) = Some False
   \<and> compare_frames env_np frame_i frame_f [''id''] None 10000 =
       Inr \<lparr>timestamp = ''2024-01-01T00:00:00'', hana_row_count = 1, snowflake_row_count = 1,
            columns_compared = [''x''], only_in_hana = [], only_in_snowflake = [],
            value_differences =
              [\<lparr>key = [(''id'', PInt 1)],
                differences =
                  [(''x'', \<lparr>hana_value = Scalar (PNpInt 1),
                            snowflake_value = Scalar (PFloat 0x3FF000000000AFEC)\<rparr>)]\<rparr>]\<rparr>"
proof (intro conjI)
  show "values_differ e (Scalar (PNpInt m)) (Scalar (PFloat w)) = Inr (float_ne e (PNpInt m) (PFloat w))"
    by (simp add: values_differ_def py_ne_def)
  show "values_differ e (Scalar (PFloat w)) (Scalar (PNpInt m)) = Inr (float_ne e (PFloat w) (PNpInt m))"
    by (simp add: values_differ_def py_ne_def)
  show "float_test env_np (PInt 1) (PFloat 0x3FF000000000AFEC) = Some False"
    by (simp add: env_np_def)
  show "compare_frames env_np frame_i frame_f [''id''] None 10000 =
       Inr \<lparr>timestamp = ''2024-01-01T00:00:00'', hana_row_count = 1, snowflake_row_count = 1,
            columns_compared = [''x''], only_in_hana = [], only_in_snowflake = [],
            value_differences =
              [\<lparr>key = [(''id'', PInt 1)],
                differences =
                  [(''x'', \<lparr>hana_value = Scalar (PNpInt 1),
                            snowflake_value = Scalar (PFloat 0x3FF000000000AFEC)\<rparr>)]\<rparr>]\<rparr>"
    by code_simp
qed

subsection \<open>Values that are not numbers\<close>





end
